theory Spec2Isabelle
  imports Main
begin

section \<open>Python values and built-ins used by the framework\<close>

text \<open>
  The framework is Python glue around the Playwright and behave libraries. A Python
  string is the list of its code points, each a \<open>char\<close>, so the model covers text
  whose code points are below 256; an \<open>Optional[str]\<close> is a \<open>string option\<close>; the
  process environment is a map from names to values. Every exception the source can
  raise is a value of \<open>error\<close>. \<open>ValueError v\<close> is the error the built-in \<open>int\<close>
  raises for the text \<open>v\<close>: its message is made from that text alone.
\<close>

datatype error =
    AttributeError string
  | ValueError string
  | AssertionError string
  | TypeError string
  | KeyError string

type_synonym environ = "string \<rightharpoonup> string"

text \<open>\<^verbatim>\<open>os.getenv(name, default)\<close>\<close>

definition getenv :: "environ \<Rightarrow> string \<Rightarrow> string \<Rightarrow> string" where
  "getenv osenv name dflt = (case osenv name of None \<Rightarrow> dflt | Some v \<Rightarrow> v)"

text \<open>
  \<^verbatim>\<open>str.lower()\<close> on code points below 256: the upper-case letters are the codes
  65 to 90 and 192 to 222 without 215 (the multiplication sign); the lower-case letter
  is 32 further, which is bit 5 set. Every other character is kept.
\<close>

definition is_upper :: "char \<Rightarrow> bool" where
  "is_upper c \<longleftrightarrow>
     (65 \<le> (of_char c :: nat) \<and> (of_char c :: nat) \<le> 90) \<or>
     (192 \<le> (of_char c :: nat) \<and> (of_char c :: nat) \<le> 222 \<and> (of_char c :: nat) \<noteq> 215)"

definition lower_char :: "char \<Rightarrow> char" where
  "lower_char c =
     (if is_upper c
      then (case c of Char b0 b1 b2 b3 b4 b5 b6 b7 \<Rightarrow> Char b0 b1 b2 b3 b4 True b6 b7)
      else c)"

definition lower :: "string \<Rightarrow> string" where
  "lower s = map lower_char s"

text \<open>\<^verbatim>\<open>s.replace(' ', '_')\<close>: every space becomes an underscore.\<close>

definition replace_space :: "string \<Rightarrow> string" where
  "replace_space s = map (\<lambda>c. if c = CHR '' '' then CHR ''_'' else c) s"

text \<open>
  Truthiness of an \<open>Optional[str]\<close> and the operator \<^verbatim>\<open>a or b\<close>, which yields
  \<open>a\<close> when \<open>a\<close> is truthy and \<open>b\<close> otherwise. \<open>None\<close> and the empty string are
  falsy.
\<close>

definition truthy :: "string option \<Rightarrow> bool" where
  "truthy v = (case v of None \<Rightarrow> False | Some s \<Rightarrow> s \<noteq> [])"

definition py_or :: "string option \<Rightarrow> string option \<Rightarrow> string option" where
  "py_or a b = (if truthy a then a else b)"

text \<open>
  \<^verbatim>\<open>needle in haystack\<close> on strings: \<open>needle\<close> occurs as a contiguous run of
  \<open>haystack\<close>. \<open>starts_with\<close> is the comparison at one position.
\<close>

fun starts_with :: "string \<Rightarrow> string \<Rightarrow> bool" where
  "starts_with [] hay = True"
| "starts_with (n # ns) [] = False"
| "starts_with (n # ns) (h # hs) = (n = h \<and> starts_with ns hs)"

fun str_contains :: "string \<Rightarrow> string \<Rightarrow> bool" where
  "str_contains needle [] = (needle = [])"
| "str_contains needle (h # hs) = (starts_with needle (h # hs) \<or> str_contains needle hs)"

text \<open>
  \<^verbatim>\<open>needle in haystack\<close> where \<open>haystack\<close> may be \<open>None\<close>: Python raises
  \<open>TypeError\<close> for a \<open>None\<close> right operand.
\<close>

definition py_in :: "string \<Rightarrow> string option \<Rightarrow> error + bool" where
  "py_in needle haystack =
     (case haystack of
        None \<Rightarrow> Inl (TypeError ''argument of type 'NoneType' is not iterable'')
      | Some h \<Rightarrow> Inr (str_contains needle h))"

subsection \<open>The built-in \<open>int\<close> on a string\<close>

text \<open>
  \<^verbatim>\<open>int(s)\<close> in base 10, as CPython 3.11 with its default settings computes it on
  text with code points below 256. Surrounding whitespace is dropped: tab, line feed,
  vertical tab, form feed, carriage return and space, and of the code points from 128
  the next-line control 133 and the no-break space 160. One sign is allowed, then come
  decimal digits, which below 256 are the ASCII digits, in which single underscores may
  separate digits (no underscore first, last or doubled). A text with more than 4300
  digits is refused, the interpreter's default limit. Every refusal raises
  \<open>ValueError\<close>, here \<open>None\<close>.
\<close>

definition is_space :: "char \<Rightarrow> bool" where
  "is_space c \<longleftrightarrow>
     (9 \<le> (of_char c :: nat) \<and> (of_char c :: nat) \<le> 13) \<or> (of_char c :: nat) = 32 \<or>
     (of_char c :: nat) = 133 \<or> (of_char c :: nat) = 160"

definition is_digit :: "char \<Rightarrow> bool" where
  "is_digit c \<longleftrightarrow> 48 \<le> (of_char c :: nat) \<and> (of_char c :: nat) \<le> 57"

definition digit_val :: "char \<Rightarrow> int" where
  "digit_val c = int (of_char c) - 48"

definition strip :: "string \<Rightarrow> string" where
  "strip s = rev (dropWhile is_space (rev (dropWhile is_space s)))"

text \<open>
  The digit loop: \<open>acc\<close> is the value read so far, \<open>prev_us\<close> says that the previous
  character was an underscore.
\<close>

fun scan_digits :: "int \<Rightarrow> bool \<Rightarrow> string \<Rightarrow> int option" where
  "scan_digits acc prev_us [] = (if prev_us then None else Some acc)"
| "scan_digits acc prev_us (c # cs) =
     (if c = CHR ''_'' then (if prev_us then None else scan_digits acc True cs)
      else if is_digit c then scan_digits (acc * 10 + digit_val c) False cs
      else None)"

definition scan_body :: "string \<Rightarrow> int option" where
  "scan_body body =
     (case body of
        [] \<Rightarrow> None
      | c # cs \<Rightarrow> if c = CHR ''_'' then None else scan_digits 0 False (c # cs))"

definition int_max_str_digits :: nat where
  "int_max_str_digits = 4300"

definition py_int :: "string \<Rightarrow> int option" where
  "py_int s =
     (if int_max_str_digits < length (filter is_digit s) then None
      else (case strip s of
              [] \<Rightarrow> None
            | c # cs \<Rightarrow>
                if c = CHR ''-'' then map_option uminus (scan_body cs)
                else if c = CHR ''+'' then scan_body cs
                else scan_body (c # cs)))"

text \<open>
  \<^verbatim>\<open>int(os.getenv(name, default))\<close>: the value as an integer, or the \<open>ValueError\<close>
  of the rejected text. Nothing catches the error and nothing is put in its place. The
  first argument stands for the built-in \<open>int\<close>.
\<close>

definition int_env :: "(string \<Rightarrow> int option) \<Rightarrow> environ \<Rightarrow> string \<Rightarrow> string \<Rightarrow> error + int" where
  "int_env int_of osenv name dflt =
     (case int_of (getenv osenv name dflt) of
        None \<Rightarrow> Inl (ValueError (getenv osenv name dflt))
      | Some n \<Rightarrow> Inr n)"

section \<open>Configuration: \<open>config/settings.py\<close> and \<open>features/support/config.py\<close>\<close>

definition BASE_URLS :: "string \<rightharpoonup> string" where
  "BASE_URLS =
     [''dev'' \<mapsto> ''https://dev.example.com'',
      ''staging'' \<mapsto> ''https://staging.example.com'',
      ''prod'' \<mapsto> ''https://example.com'']"

text \<open>\<^verbatim>\<open>ENVIRONMENT = os.getenv("TEST_ENV", "dev")\<close>\<close>

definition ENVIRONMENT :: "environ \<Rightarrow> string" where
  "ENVIRONMENT osenv = getenv osenv ''TEST_ENV'' ''dev''"

text \<open>
  \<^verbatim>\<open>get_base_url(environment=None)\<close>: \<open>env = environment or ENVIRONMENT\<close>, then
  \<open>BASE_URLS.get(env, BASE_URLS["dev"])\<close>. The default \<open>BASE_URLS["dev"]\<close> is
  a subscript and is evaluated before the lookup.
\<close>

definition get_base_url :: "environ \<Rightarrow> string option \<Rightarrow> error + string" where
  "get_base_url osenv environment =
     (case BASE_URLS ''dev'' of
        None \<Rightarrow> Inl (KeyError ''dev'')
      | Some dflt \<Rightarrow>
          Inr (case py_or environment (Some (ENVIRONMENT osenv)) of
                 None \<Rightarrow> dflt
               | Some env \<Rightarrow> (case BASE_URLS env of None \<Rightarrow> dflt | Some url \<Rightarrow> url)))"

text \<open>
  The \<open>BROWSER_CONFIG\<close> dictionary of \<open>settings.py\<close>, built at import.
  \<open>BROWSER_CONFIG_with int_of\<close> is the source with \<open>int_of\<close> for the built-in
  \<open>int\<close>, whatever the interpreter makes of it; \<open>BROWSER_CONFIG\<close> is the source
  with \<open>py_int\<close>.
\<close>

record browser_config =
  default_browser :: string
  bc_headless :: bool
  bc_slow_mo :: int
  video :: string
  screenshot :: string

definition BROWSER_CONFIG_with :: "(string \<Rightarrow> int option) \<Rightarrow> environ \<Rightarrow> error + browser_config" where
  "BROWSER_CONFIG_with int_of osenv =
     (case int_env int_of osenv ''SLOW_MO'' ''0'' of
        Inl e \<Rightarrow> Inl e
      | Inr sm \<Rightarrow>
          Inr \<lparr> default_browser = getenv osenv ''BROWSER'' ''chromium'',
                bc_headless = (lower (getenv osenv ''HEADLESS'' ''false'') = ''true''),
                bc_slow_mo = sm,
                video = getenv osenv ''VIDEO'' ''off'',
                screenshot = getenv osenv ''SCREENSHOT'' ''only-on-failure'' \<rparr>)"

definition BROWSER_CONFIG :: "environ \<Rightarrow> error + browser_config" where
  "BROWSER_CONFIG osenv = BROWSER_CONFIG_with py_int osenv"

text \<open>
  The class \<open>Config\<close>: its field defaults are computed from the environment, in the
  order of the class body, when the class is created. \<open>Config_with int_of\<close> is the
  class body with \<open>int_of\<close> for the built-in \<open>int\<close>; \<open>Config\<close> is the class body
  with \<open>py_int\<close>.
\<close>

record config =
  browser_name :: string
  headless :: bool
  slow_mo :: int
  base_url :: string
  timeout :: int
  test_username :: string
  test_password :: string

definition Config_with :: "(string \<Rightarrow> int option) \<Rightarrow> environ \<Rightarrow> error + config" where
  "Config_with int_of osenv =
     (case int_env int_of osenv ''SLOW_MO'' ''0'' of
        Inl e \<Rightarrow> Inl e
      | Inr sm \<Rightarrow>
          (case int_env int_of osenv ''TIMEOUT'' ''30000'' of
             Inl e \<Rightarrow> Inl e
           | Inr t \<Rightarrow>
               Inr \<lparr> browser_name = getenv osenv ''BROWSER'' ''chromium'',
                     headless = (lower (getenv osenv ''HEADLESS'' ''false'') = ''true''),
                     slow_mo = sm,
                     base_url = getenv osenv ''BASE_URL'' ''https://example.com'',
                     timeout = t,
                     test_username = getenv osenv ''TEST_USERNAME'' ''testuser'',
                     test_password = getenv osenv ''TEST_PASSWORD'' ''testpass'' \<rparr>))"

definition Config :: "environ \<Rightarrow> error + config" where
  "Config osenv = Config_with py_int osenv"

section \<open>The automation library as seen by the framework\<close>

text \<open>
  Playwright is an external collaborator. What the framework does to it is the ordered
  list of calls it issues; what it learns from it is the handle of each object the
  library creates and the text of the page. Handles are numbers drawn from a counter, so
  that two objects created at different moments are different. Library calls are taken
  to return normally: a failure inside the library is outside this development.
\<close>

type_synonym handle = nat

datatype call =
    Playwright_start handle
  | Launch handle string bool int handle
  | New_page handle handle
  | Set_default_timeout handle int
  | Goto handle string
  | Wait_for_load_state handle string
  | Click handle string
  | Fill handle string string
  | Text_content handle string
  | Wait_for_selector handle string "string option" "int option"
  | Screenshot handle string
  | Page_close handle
  | Browser_close handle
  | Playwright_stop handle
  | Print string

record world =
  calls :: "call list"
  next_id :: handle
  dom_text :: "handle \<Rightarrow> string \<Rightarrow> string option"

definition emit :: "call \<Rightarrow> world \<Rightarrow> world" where
  "emit c w = w\<lparr>calls := calls w @ [c]\<rparr>"

definition alloc :: "world \<Rightarrow> handle \<times> world" where
  "alloc w = (next_id w, w\<lparr>next_id := Suc (next_id w)\<rparr>)"

text \<open>
  \<open>wait_for_selector\<close> of the library waits for the state \<open>visible\<close> when no state is
  passed.
\<close>

definition wait_state :: "string option \<Rightarrow> string" where
  "wait_state st = (case st of None \<Rightarrow> ''visible'' | Some s \<Rightarrow> s)"

text \<open>A call with the library's default made explicit.\<close>

fun effective :: "call \<Rightarrow> call" where
  "effective (Wait_for_selector p s st t) = Wait_for_selector p s (Some (wait_state st)) t"
| "effective c = c"

section \<open>Page objects: \<open>features/support/page_objects\<close>\<close>

subsection \<open>\<open>BasePage\<close>\<close>

text \<open>A page object is bound to one page handle, the first argument of each method.\<close>

definition navigate_to :: "handle \<Rightarrow> string \<Rightarrow> world \<Rightarrow> world" where
  "navigate_to page url w = emit (Goto page url) w"

text \<open>The parameter \<open>state\<close> defaults to \<open>"networkidle"\<close>.\<close>

definition wait_for_load_state :: "handle \<Rightarrow> string option \<Rightarrow> world \<Rightarrow> world" where
  "wait_for_load_state page state w =
     emit (Wait_for_load_state page (case state of None \<Rightarrow> ''networkidle'' | Some s \<Rightarrow> s)) w"

definition click :: "handle \<Rightarrow> string \<Rightarrow> world \<Rightarrow> world" where
  "click page selector w = emit (Click page selector) w"

definition fill :: "handle \<Rightarrow> string \<Rightarrow> string \<Rightarrow> world \<Rightarrow> world" where
  "fill page selector val w = emit (Fill page selector val) w"

text \<open>\<^verbatim>\<open>return self.page.text_content(selector) or ""\<close>\<close>

definition get_text :: "handle \<Rightarrow> string \<Rightarrow> world \<Rightarrow> string option \<times> world" where
  "get_text page selector w =
     (py_or (dom_text w page selector) (Some ''''), emit (Text_content page selector) w)"

text \<open>The wrapper forwards the selector and the timeout, and no state.\<close>

definition wait_for_selector :: "handle \<Rightarrow> string \<Rightarrow> int option \<Rightarrow> world \<Rightarrow> world" where
  "wait_for_selector page selector tmo w = emit (Wait_for_selector page selector None tmo) w"

subsection \<open>\<open>LoginPage\<close>\<close>

definition USERNAME_INPUT :: string where "USERNAME_INPUT = ''#username''"
definition PASSWORD_INPUT :: string where "PASSWORD_INPUT = ''#password''"
definition LOGIN_BUTTON :: string where "LOGIN_BUTTON = ''#login-button''"
definition ERROR_MESSAGE :: string where "ERROR_MESSAGE = ''.error-message''"

definition login :: "handle \<Rightarrow> string \<Rightarrow> string \<Rightarrow> world \<Rightarrow> world" where
  "login page username password w =
     click page LOGIN_BUTTON (fill page PASSWORD_INPUT password (fill page USERNAME_INPUT username w))"

definition get_error_message :: "handle \<Rightarrow> world \<Rightarrow> string option \<times> world" where
  "get_error_message page w = get_text page ERROR_MESSAGE w"

subsection \<open>\<open>DashboardPage\<close>\<close>

definition quote :: string where "quote = [CHR 0x27]"

definition LOAD_DATA_BUTTON :: string where
  "LOAD_DATA_BUTTON = ''button:has-text('' @ quote @ ''Load Data'' @ quote @ '')''"

definition LOADING_SPINNER :: string where "LOADING_SPINNER = ''.loading-spinner''"

definition load_data :: "handle \<Rightarrow> world \<Rightarrow> world" where
  "load_data page w =
     emit (Wait_for_selector page LOADING_SPINNER (Some ''hidden'') (Some 30000))
       (wait_for_selector page LOADING_SPINNER (Some 5000)
          (click page LOAD_DATA_BUTTON w))"

section \<open>\<open>BrowserManager\<close>: \<open>features/support/browser_manager.py\<close>\<close>

record browser_manager =
  playwright :: "handle option"
  browser :: "handle option"
  bm_config :: config

definition BrowserManager :: "config \<Rightarrow> browser_manager" where
  "BrowserManager cfg = \<lparr> playwright = None, browser = None, bm_config = cfg \<rparr>"

text \<open>
  The driver object has a browser type under the names \<open>chromium\<close>, \<open>firefox\<close> and
  \<open>webkit\<close>; \<open>getattr\<close> with any other name, or \<open>launch\<close> on what it yields,
  raises \<open>AttributeError\<close>.
\<close>

definition browser_types :: "string list" where
  "browser_types = [''chromium'', ''firefox'', ''webkit'']"

text \<open>
  \<open>get_browser\<close>: a browser handle is truthy, so \<open>not self.browser\<close> holds exactly when
  the field is \<open>None\<close>. The manager is returned as the call leaves it, also when the
  call raises.
\<close>

definition get_browser :: "browser_manager \<Rightarrow> world \<Rightarrow> (error + handle) \<times> browser_manager \<times> world" where
  "get_browser bm w =
     (case browser bm of
        Some b \<Rightarrow> (Inr b, bm, w)
      | None \<Rightarrow>
          (let (d, w1) = alloc w;
               w2 = emit (Playwright_start d) w1;
               bm1 = bm\<lparr>playwright := Some d\<rparr>
           in if browser_name (bm_config bm) \<in> set browser_types
              then (let (b, w3) = alloc w2;
                        w4 = emit (Launch d (browser_name (bm_config bm))
                                     (headless (bm_config bm)) (slow_mo (bm_config bm)) b) w3
                    in (Inr b, bm1\<lparr>browser := Some b\<rparr>, w4))
              else (Inl (AttributeError (browser_name (bm_config bm))), bm1, w2)))"

text \<open>\<open>close_all\<close> assigns no field: the manager it returns is the one it was given.\<close>

definition close_all :: "browser_manager \<Rightarrow> world \<Rightarrow> browser_manager \<times> world" where
  "close_all bm w =
     (let w1 = (case browser bm of None \<Rightarrow> w | Some b \<Rightarrow> emit (Browser_close b) w);
          w2 = (case playwright bm of None \<Rightarrow> w1 | Some d \<Rightarrow> emit (Playwright_stop d) w1)
      in (bm, w2))"

section \<open>Scenario hooks: \<open>features/environment.py\<close>\<close>

text \<open>
  The runner's context object: \<open>before_all\<close> sets \<open>config\<close> and \<open>browser_manager\<close>;
  the other attributes exist only once a hook or a step has assigned them, and reading
  a missing one raises \<open>AttributeError\<close>. A page object stored on the context is
  represented by the page handle it is bound to.
\<close>

record behave_context =
  ctx_config :: config
  ctx_browser_manager :: browser_manager
  ctx_browser :: "handle option"
  page :: "handle option"
  scenario_name :: "string option"
  login_page :: "handle option"

datatype status = Untested | Skipped | Passed | Failed | Undefined | Executing

record scenario =
  name :: string
  status :: status

text \<open>
  A hook or a step leaves the context and the world as they are at the moment it
  returns or raises; the first component is the exception, if any.
\<close>

type_synonym outcome = "error option \<times> behave_context \<times> world"

definition before_all :: "config \<Rightarrow> behave_context" where
  "before_all cfg =
     \<lparr> ctx_config = cfg, ctx_browser_manager = BrowserManager cfg, ctx_browser = None,
       page = None, scenario_name = None, login_page = None \<rparr>"

definition before_scenario :: "behave_context \<Rightarrow> scenario \<Rightarrow> world \<Rightarrow> outcome" where
  "before_scenario ctx sc w =
     (case get_browser (ctx_browser_manager ctx) w of
        (Inl e, bm, w1) \<Rightarrow> (Some e, ctx\<lparr>ctx_browser_manager := bm\<rparr>, w1)
      | (Inr b, bm, w1) \<Rightarrow>
          (let (p, w2) = alloc w1;
               w3 = emit (New_page b p) w2;
               w4 = emit (Set_default_timeout p 30000) w3
           in (None,
               ctx\<lparr>ctx_browser_manager := bm, ctx_browser := Some b, page := Some p,
                   scenario_name := Some (name sc)\<rparr>,
               w4)))"

definition screenshot_path :: "string \<Rightarrow> string" where
  "screenshot_path nm = ''screenshots/'' @ replace_space nm @ ''.png''"

text \<open>The closing part of \<open>after_scenario\<close>, guarded by \<open>hasattr(context, 'page')\<close>.\<close>

definition close_page :: "behave_context \<Rightarrow> world \<Rightarrow> outcome" where
  "close_page ctx w =
     (case page ctx of
        None \<Rightarrow> (None, ctx, w)
      | Some p \<Rightarrow> (None, ctx, emit (Page_close p) w))"

definition after_scenario :: "behave_context \<Rightarrow> scenario \<Rightarrow> world \<Rightarrow> outcome" where
  "after_scenario ctx sc w =
     (if status sc = Failed
      then (case page ctx of
              None \<Rightarrow> (Some (AttributeError ''page''), ctx, w)
            | Some p \<Rightarrow>
                close_page ctx
                  (emit (Print (''Screenshot saved: '' @ screenshot_path (name sc)))
                     (emit (Screenshot p (screenshot_path (name sc))) w)))
      else close_page ctx w)"

definition after_all :: "behave_context \<Rightarrow> world \<Rightarrow> behave_context \<times> world" where
  "after_all ctx w =
     (case close_all (ctx_browser_manager ctx) w of
        (bm, w1) \<Rightarrow> (ctx\<lparr>ctx_browser_manager := bm\<rparr>, w1))"

section \<open>Step definitions: \<open>features/steps\<close>\<close>

subsection \<open>\<open>common_steps.py\<close>\<close>

text \<open>\<^verbatim>\<open>@given('I am on the "{page_name}" page')\<close>\<close>

definition url_map :: "behave_context \<Rightarrow> string \<rightharpoonup> string" where
  "url_map ctx =
     [''login'' \<mapsto> base_url (ctx_config ctx) @ ''/login'',
      ''dashboard'' \<mapsto> base_url (ctx_config ctx) @ ''/dashboard'',
      ''home'' \<mapsto> base_url (ctx_config ctx)]"

definition step_navigate_to_page :: "behave_context \<Rightarrow> string \<Rightarrow> world \<Rightarrow> outcome" where
  "step_navigate_to_page ctx page_name w =
     (case page ctx of
        None \<Rightarrow> (Some (AttributeError ''page''), ctx, w)
      | Some p \<Rightarrow>
          (let url = (case url_map ctx (lower page_name) of
                        None \<Rightarrow> base_url (ctx_config ctx)
                      | Some u \<Rightarrow> u)
           in (None, ctx, wait_for_load_state p None (navigate_to p url w))))"

subsection \<open>\<open>login_steps.py\<close>\<close>

text \<open>\<^verbatim>\<open>@given('I am on the login page')\<close>\<close>

definition step_navigate_to_login :: "behave_context \<Rightarrow> world \<Rightarrow> outcome" where
  "step_navigate_to_login ctx w =
     (case page ctx of
        None \<Rightarrow> (Some (AttributeError ''page''), ctx, w)
      | Some p \<Rightarrow>
          (None, ctx\<lparr>login_page := Some p\<rparr>,
           navigate_to p (base_url (ctx_config ctx) @ ''/login'') w))"

text \<open>\<^verbatim>\<open>@when('I enter username "{username}" and password "{password}"')\<close>\<close>

definition step_enter_credentials :: "behave_context \<Rightarrow> string \<Rightarrow> string \<Rightarrow> world \<Rightarrow> outcome" where
  "step_enter_credentials ctx username password w =
     (case login_page ctx of
        None \<Rightarrow> (Some (AttributeError ''login_page''), ctx, w)
      | Some lp \<Rightarrow> (None, ctx, login lp username password w))"

text \<open>\<^verbatim>\<open>@when('I click the login button')\<close>\<close>

definition step_click_login :: "behave_context \<Rightarrow> world \<Rightarrow> outcome" where
  "step_click_login ctx w =
     (case login_page ctx of
        None \<Rightarrow> (Some (AttributeError ''login_page''), ctx, w)
      | Some lp \<Rightarrow> (None, ctx, click lp LOGIN_BUTTON w))"

text \<open>
  \<^verbatim>\<open>@then('I should see an error message "{error_message}"')\<close>: the assertion and
  its message, an f-string in which a \<open>None\<close> would print as \<open>None\<close>.
\<close>

definition fmt :: "string option \<Rightarrow> string" where
  "fmt v = (case v of None \<Rightarrow> ''None'' | Some s \<Rightarrow> s)"

definition error_not_found :: "string \<Rightarrow> string option \<Rightarrow> string" where
  "error_not_found error_message actual_error =
     ''Expected error '' @ quote @ error_message @ quote @ '' not found in '' @ quote
       @ fmt actual_error @ quote"

definition step_verify_error_message :: "behave_context \<Rightarrow> string \<Rightarrow> world \<Rightarrow> outcome" where
  "step_verify_error_message ctx error_message w =
     (case login_page ctx of
        None \<Rightarrow> (Some (AttributeError ''login_page''), ctx, w)
      | Some lp \<Rightarrow>
          (case get_error_message lp w of
             (actual_error, w1) \<Rightarrow>
               (case py_in error_message actual_error of
                  Inl e \<Rightarrow> (Some e, ctx, w1)
                | Inr ok \<Rightarrow>
                    if ok then (None, ctx, w1)
                    else (Some (AssertionError (error_not_found error_message actual_error)),
                          ctx, w1))))"

subsection \<open>Running the steps of a scenario\<close>

text \<open>
  The runner matches each phrase of a scenario with the one registered pattern and calls
  its handler with the quoted segments as arguments. A step instance is the handler with
  its arguments. Steps run in the declared order, and the first step that raises ends the
  run of the steps.
\<close>

datatype step =
    I_am_on_the_page string
  | I_am_on_the_login_page
  | I_enter_username_and_password string string
  | I_click_the_login_button
  | I_should_see_an_error_message string

fun dispatch :: "step \<Rightarrow> behave_context \<Rightarrow> world \<Rightarrow> outcome" where
  "dispatch (I_am_on_the_page page_name) ctx w = step_navigate_to_page ctx page_name w"
| "dispatch I_am_on_the_login_page ctx w = step_navigate_to_login ctx w"
| "dispatch (I_enter_username_and_password u p) ctx w = step_enter_credentials ctx u p w"
| "dispatch I_click_the_login_button ctx w = step_click_login ctx w"
| "dispatch (I_should_see_an_error_message m) ctx w = step_verify_error_message ctx m w"

fun run_steps :: "step list \<Rightarrow> behave_context \<Rightarrow> world \<Rightarrow> outcome" where
  "run_steps [] ctx w = (None, ctx, w)"
| "run_steps (s # ss) ctx w =
     (case dispatch s ctx w of
        (Some e, ctx1, w1) \<Rightarrow> (Some e, ctx1, w1)
      | (None, ctx1, w1) \<Rightarrow> run_steps ss ctx1 w1)"

text \<open>The calls a piece of code issued: those of the world after it, beyond the ones before.\<close>

definition issued :: "world \<Rightarrow> world \<Rightarrow> call list" where
  "issued w w' = drop (length (calls w)) (calls w')"

section \<open>Repeated calls, call counts and concrete inputs\<close>

text \<open>\<open>get_browser\<close> called \<open>n\<close> times in a row on one manager, with the results in order.\<close>

fun get_browsers :: "nat \<Rightarrow> browser_manager \<Rightarrow> world \<Rightarrow> (error + handle) list \<times> browser_manager \<times> world" where
  "get_browsers 0 bm w = ([], bm, w)"
| "get_browsers (Suc n) bm w =
     (case get_browser bm w of
        (r, bm1, w1) \<Rightarrow>
          (case get_browsers n bm1 w1 of
             (rs, bm2, w2) \<Rightarrow> (r # rs, bm2, w2)))"

text \<open>The number of browser processes launched in a list of calls.\<close>

fun is_launch :: "call \<Rightarrow> bool" where
  "is_launch (Launch d n h s b) = True"
| "is_launch c = False"

definition launches :: "call list \<Rightarrow> nat" where
  "launches cs = length (filter is_launch cs)"

text \<open>The release calls one \<open>close_all\<close> issues for a manager: the browser, then the driver.\<close>

definition releases :: "browser_manager \<Rightarrow> call list" where
  "releases bm =
     (case browser bm of None \<Rightarrow> [] | Some b \<Rightarrow> [Browser_close b]) @
     (case playwright bm of None \<Rightarrow> [] | Some d \<Rightarrow> [Playwright_stop d])"

text \<open>
  The default timeout a list of calls leaves on a page: that of the last
  \<open>set_default_timeout\<close> on it.
\<close>

fun applied_timeout :: "call list \<Rightarrow> handle \<Rightarrow> int option" where
  "applied_timeout [] p = None"
| "applied_timeout (Set_default_timeout q t # cs) p =
     (case applied_timeout cs p of
        Some t' \<Rightarrow> Some t'
      | None \<Rightarrow> if q = p then Some t else None)"
| "applied_timeout (c # cs) p = applied_timeout cs p"

text \<open>
  The three phrases \<^verbatim>\<open>I am on the "login" page\<close>,
  \<^verbatim>\<open>I enter username "u" and password "pw"\<close>, \<^verbatim>\<open>I click the login button\<close>.
\<close>

definition login_scenario :: "string \<Rightarrow> string \<Rightarrow> step list" where
  "login_scenario u pw =
     [I_am_on_the_page ''login'', I_enter_username_and_password u pw, I_click_the_login_button]"

text \<open>The configuration of an empty environment, and a world in which nothing has happened.\<close>

definition default_config :: config where
  "default_config =
     \<lparr> browser_name = ''chromium'', headless = False, slow_mo = 0,
       base_url = ''https://example.com'', timeout = 30000,
       test_username = ''testuser'', test_password = ''testpass'' \<rparr>"

definition initial_world :: world where
  "initial_world = \<lparr> calls = [], next_id = 0, dom_text = (\<lambda>p. Map.empty) \<rparr>"

text \<open>A world whose pages show \<open>msg\<close> under the error-message locator.\<close>

definition page_with_error :: "string \<Rightarrow> world" where
  "page_with_error msg = initial_world\<lparr>dom_text := (\<lambda>p. [ERROR_MESSAGE \<mapsto> msg])\<rparr>"

text \<open>The first scenario of a run with the default configuration, after its setup hook.\<close>

definition fresh_scenario :: outcome where
  "fresh_scenario =
     before_scenario (before_all default_config)
       \<lparr>name = ''Login with valid credentials'', status = Untested\<rparr> initial_world"

section \<open>Basic facts about the world\<close>

lemma calls_emit: "calls (emit c w) = calls w @ [c]"
  by (simp add: emit_def)

lemma next_id_emit: "next_id (emit c w) = next_id w"
  by (simp add: emit_def)

lemma dom_text_emit: "dom_text (emit c w) = dom_text w"
  by (simp add: emit_def)

lemma issued_append: "calls w' = calls w @ cs \<Longrightarrow> issued w w' = cs"
  by (simp add: issued_def)

section \<open>Page objects\<close>

text \<open>
  C8. \<open>DashboardPage.load_data\<close> issues exactly three calls, in this order: the click on
  \<open>LOAD_DATA_BUTTON\<close>, a wait on \<open>LOADING_SPINNER\<close> with timeout 5000 and no state
  (which the library takes as \<open>visible\<close>), and a wait on \<open>LOADING_SPINNER\<close> with
  state \<open>hidden\<close> and timeout 30000. Nothing else is called and no object is created.
\<close>

theorem load_data_calls:
  "calls (load_data p w) = calls w @
     [Click p LOAD_DATA_BUTTON,
      Wait_for_selector p LOADING_SPINNER None (Some 5000),
      Wait_for_selector p LOADING_SPINNER (Some ''hidden'') (Some 30000)]
   \<and> map effective (issued w (load_data p w)) =
     [Click p LOAD_DATA_BUTTON,
      Wait_for_selector p LOADING_SPINNER (Some ''visible'') (Some 5000),
      Wait_for_selector p LOADING_SPINNER (Some ''hidden'') (Some 30000)]
   \<and> next_id (load_data p w) = next_id w"
  by (simp add: load_data_def wait_for_selector_def click_def calls_emit next_id_emit
      wait_state_def issued_def)

theorem load_data_calls_witness:
  "calls (load_data 7 \<lparr>calls = [Goto 7 ''https://example.com/dashboard''], next_id = 8,
                        dom_text = (\<lambda>p. Map.empty)\<rparr>) =
     [Goto 7 ''https://example.com/dashboard'',
      Click 7 ''button:has-text('Load Data')'',
      Wait_for_selector 7 ''.loading-spinner'' None (Some 5000),
      Wait_for_selector 7 ''.loading-spinner'' (Some ''hidden'') (Some 30000)]"
  using load_data_calls [of 7 "\<lparr>calls = [Goto 7 ''https://example.com/dashboard''],
                                 next_id = 8, dom_text = (\<lambda>p. Map.empty)\<rparr>"]
  by (simp add: LOAD_DATA_BUTTON_def LOADING_SPINNER_def quote_def)

text \<open>
  C9. \<open>BasePage.get_text\<close> never returns \<open>None\<close>: it returns the text of the element
  when the page has one, and the empty string when \<open>text_content\<close> yields \<open>None\<close>.
  It issues the one call \<open>text_content\<close>.
\<close>

theorem get_text_never_none:
  "fst (get_text p sel w) = Some (case dom_text w p sel of None \<Rightarrow> [] | Some s \<Rightarrow> s)
   \<and> fst (get_text p sel w) \<noteq> None
   \<and> calls (snd (get_text p sel w)) = calls w @ [Text_content p sel]"
  by (simp add: get_text_def py_or_def truthy_def calls_emit split: option.splits)

theorem get_text_never_none_witness:
  "fst (get_text 3 ''.data-table'' \<lparr>calls = [], next_id = 4, dom_text = (\<lambda>p. Map.empty)\<rparr>)
     = Some ''''"
  using get_text_never_none [of 3 "''.data-table''"
      "\<lparr>calls = [], next_id = 4, dom_text = (\<lambda>p. Map.empty)\<rparr>"]
  by simp

section \<open>Settings\<close>

text \<open>
  C10 as stated fails at the empty string: \<open>""\<close> is not one of \<open>dev\<close>, \<open>staging\<close>,
  \<open>prod\<close>, yet it is falsy, so \<open>get_base_url("")\<close> falls back to \<open>TEST_ENV\<close> and,
  with \<open>TEST_ENV=prod\<close>, returns the production URL.
\<close>

theorem get_base_url_empty_counterexample:
  "'''' \<notin> {''dev'', ''staging'', ''prod''} \<and>
   get_base_url [''TEST_ENV'' \<mapsto> ''prod''] (Some '''') = Inr ''https://example.com'' \<and>
   get_base_url [''TEST_ENV'' \<mapsto> ''prod''] (Some '''') \<noteq> Inr ''https://dev.example.com''"
  by (simp add: get_base_url_def BASE_URLS_def py_or_def truthy_def ENVIRONMENT_def getenv_def)

text \<open>
  C10, amended. \<open>get_base_url\<close> never raises. For every non-empty environment name
  other than \<open>dev\<close>, \<open>staging\<close> and \<open>prod\<close> it returns the dev URL. A missing
  argument and the empty string both stand for the value of \<open>TEST_ENV\<close> (\<open>dev\<close> when
  unset), so with \<open>TEST_ENV\<close> unset they give the dev URL too.
\<close>

theorem get_base_url_total:
  "(\<exists>url. get_base_url osenv environment = Inr url) \<and>
   (e \<noteq> [] \<and> e \<notin> {''dev'', ''staging'', ''prod''} \<longrightarrow>
      get_base_url osenv (Some e) = Inr ''https://dev.example.com'') \<and>
   (osenv ''TEST_ENV'' = None \<longrightarrow>
      get_base_url osenv None = Inr ''https://dev.example.com'' \<and>
      get_base_url osenv (Some '''') = Inr ''https://dev.example.com'') \<and>
   get_base_url osenv (Some '''') = get_base_url osenv None \<and>
   get_base_url osenv None = get_base_url osenv (Some (ENVIRONMENT osenv))"
  by (simp add: get_base_url_def BASE_URLS_def py_or_def truthy_def ENVIRONMENT_def getenv_def)

theorem get_base_url_total_witness:
  "get_base_url Map.empty (Some ''qa'') = Inr ''https://dev.example.com'' \<and>
   get_base_url Map.empty None = Inr ''https://dev.example.com'' \<and>
   get_base_url Map.empty (Some '''') = Inr ''https://dev.example.com''"
  using get_base_url_total [of Map.empty None "''qa''"]
  by simp

section \<open>Configuration loading\<close>

lemmas py_int_eval = py_int_def int_max_str_digits_def strip_def is_space_def is_digit_def
  digit_val_def scan_body_def

lemma py_int_0: "py_int ''0'' = Some 0"
  by (simp add: py_int_eval)

lemma py_int_30000: "py_int ''30000'' = Some 30000"
  by (simp add: py_int_eval)

lemma lower_false: "lower ''false'' = ''false''"
  by (simp add: lower_def lower_char_def is_upper_def)

lemma Config_empty: "Config Map.empty = Inr default_config"
  by (simp add: Config_def Config_with_def int_env_def getenv_def py_int_0 py_int_30000
      default_config_def lower_false)

lemma Config_timeout_unset:
  assumes "Config osenv = Inr c" and "osenv ''TIMEOUT'' = None"
  shows "timeout c = 30000"
proof -
  have t: "int_env py_int osenv ''TIMEOUT'' ''30000'' = Inr 30000"
    using assms(2) by (simp add: int_env_def getenv_def py_int_30000)
  show ?thesis
    using assms(1) t by (auto simp add: Config_def Config_with_def split: sum.splits)
qed

text \<open>
  A character that is no digit, whitespace, underscore or sign makes \<open>int\<close> reject
  the whole string, wherever it stands.
\<close>

lemma dropWhile_keeps: "c \<in> set s \<Longrightarrow> \<not> P c \<Longrightarrow> c \<in> set (dropWhile P s)"
  by (induction s) auto

lemma strip_keeps: "c \<in> set s \<Longrightarrow> \<not> is_space c \<Longrightarrow> c \<in> set (strip s)"
  by (simp add: strip_def dropWhile_keeps)

lemma scan_digits_bad:
  "c \<in> set s \<Longrightarrow> \<not> is_digit c \<Longrightarrow> c \<noteq> CHR ''_'' \<Longrightarrow> scan_digits acc pu s = None"
  by (induction s arbitrary: acc pu) auto

lemma scan_body_bad:
  "c \<in> set s \<Longrightarrow> \<not> is_digit c \<Longrightarrow> c \<noteq> CHR ''_'' \<Longrightarrow> scan_body s = None"
  using scan_digits_bad [of c s 0 False] by (cases s) (auto simp: scan_body_def)

lemma py_int_bad:
  assumes "c \<in> set s" "\<not> is_digit c" "\<not> is_space c"
    "c \<noteq> CHR ''_''" "c \<noteq> CHR ''+''" "c \<noteq> CHR ''-''"
  shows "py_int s = None"
proof -
  have in_strip: "c \<in> set (strip s)" using assms by (simp add: strip_keeps)
  show ?thesis
  proof (cases "strip s")
    case Nil
    then show ?thesis by (simp add: py_int_def)
  next
    case (Cons d ds)
    have rest: "d = CHR ''-'' \<or> d = CHR ''+'' \<Longrightarrow> scan_body ds = None"
      using in_strip Cons assms by (auto intro: scan_body_bad)
    have whole: "scan_body (d # ds) = None"
      using in_strip Cons assms scan_body_bad [of c "d # ds"] by simp
    show ?thesis using Cons rest whole by (simp add: py_int_def)
  qed
qed

text \<open>
  C5 as stated fails in the kind of error. A malformed \<open>SLOW_MO\<close> and a malformed
  \<open>TIMEOUT\<close> raise one and the same error, the \<open>ValueError\<close> of \<open>int\<close> for the
  rejected text: it names neither the variable nor the configuration, and the source has
  no configuration error of its own.
\<close>

theorem Config_malformed_int_counterexample:
  "Config [''SLOW_MO'' \<mapsto> ''fast''] = Inl (ValueError ''fast'') \<and>
   Config [''TIMEOUT'' \<mapsto> ''fast''] = Inl (ValueError ''fast'') \<and>
   BROWSER_CONFIG [''SLOW_MO'' \<mapsto> ''fast''] = Inl (ValueError ''fast'')"
  by (simp add: Config_def Config_with_def BROWSER_CONFIG_def BROWSER_CONFIG_with_def
      int_env_def getenv_def py_int_eval)

text \<open>
  C5, amended. Whatever function the built-in \<open>int\<close> is: when it rejects the value of
  \<open>SLOW_MO\<close>, loading \<open>Config\<close> and \<open>BROWSER_CONFIG\<close> raises the \<open>ValueError\<close>
  of \<open>int\<close> for that value, and when it accepts \<open>SLOW_MO\<close> and rejects
  \<open>TIMEOUT\<close>, loading \<open>Config\<close> raises the one for that value; no default is put
  in place of a rejected value. When it accepts both values the load succeeds with the
  numbers it returns. With both variables unset the load succeeds with 0 and 30000. A
  value of \<open>SLOW_MO\<close>, or of \<open>TIMEOUT\<close> with \<open>SLOW_MO\<close> unset, that holds a
  character which is no digit, whitespace, underscore or sign is rejected.
\<close>

theorem Config_malformed_int:
  "(int_of (getenv osenv ''SLOW_MO'' ''0'') = None \<longrightarrow>
      Config_with int_of osenv = Inl (ValueError (getenv osenv ''SLOW_MO'' ''0'')) \<and>
      BROWSER_CONFIG_with int_of osenv = Inl (ValueError (getenv osenv ''SLOW_MO'' ''0''))) \<and>
   (int_of (getenv osenv ''SLOW_MO'' ''0'') \<noteq> None \<and>
    int_of (getenv osenv ''TIMEOUT'' ''30000'') = None \<longrightarrow>
      Config_with int_of osenv = Inl (ValueError (getenv osenv ''TIMEOUT'' ''30000''))) \<and>
   (int_of (getenv osenv ''SLOW_MO'' ''0'') = Some sm \<and>
    int_of (getenv osenv ''TIMEOUT'' ''30000'') = Some t \<longrightarrow>
      (\<exists>c. Config_with int_of osenv = Inr c \<and> slow_mo c = sm \<and> timeout c = t)) \<and>
   (int_of (getenv osenv ''SLOW_MO'' ''0'') = Some sm \<longrightarrow>
      (\<exists>b. BROWSER_CONFIG_with int_of osenv = Inr b \<and> bc_slow_mo b = sm)) \<and>
   (osenv ''SLOW_MO'' = None \<and> osenv ''TIMEOUT'' = None \<longrightarrow>
      (\<exists>c. Config osenv = Inr c \<and> slow_mo c = 0 \<and> timeout c = 30000) \<and>
      (\<exists>b. BROWSER_CONFIG osenv = Inr b \<and> bc_slow_mo b = 0)) \<and>
   (osenv ''SLOW_MO'' = Some v \<and> ch \<in> set v \<and> \<not> is_digit ch \<and> \<not> is_space ch \<and>
    ch \<noteq> CHR ''_'' \<and> ch \<noteq> CHR ''+'' \<and> ch \<noteq> CHR ''-'' \<longrightarrow>
      Config osenv = Inl (ValueError v) \<and> BROWSER_CONFIG osenv = Inl (ValueError v)) \<and>
   (osenv ''SLOW_MO'' = None \<and> osenv ''TIMEOUT'' = Some v \<and> ch \<in> set v \<and> \<not> is_digit ch \<and>
    \<not> is_space ch \<and> ch \<noteq> CHR ''_'' \<and> ch \<noteq> CHR ''+'' \<and> ch \<noteq> CHR ''-'' \<longrightarrow>
      Config osenv = Inl (ValueError v))"
proof -
  have bad_slow: "osenv ''SLOW_MO'' = Some v \<Longrightarrow> ch \<in> set v \<Longrightarrow> \<not> is_digit ch \<Longrightarrow>
      \<not> is_space ch \<Longrightarrow> ch \<noteq> CHR ''_'' \<Longrightarrow> ch \<noteq> CHR ''+'' \<Longrightarrow> ch \<noteq> CHR ''-'' \<Longrightarrow>
      Config osenv = Inl (ValueError v) \<and> BROWSER_CONFIG osenv = Inl (ValueError v)"
    using py_int_bad [of ch v]
    by (simp add: Config_def Config_with_def BROWSER_CONFIG_def BROWSER_CONFIG_with_def
        int_env_def getenv_def)
  have bad_timeout: "osenv ''SLOW_MO'' = None \<Longrightarrow> osenv ''TIMEOUT'' = Some v \<Longrightarrow> ch \<in> set v \<Longrightarrow>
      \<not> is_digit ch \<Longrightarrow> \<not> is_space ch \<Longrightarrow> ch \<noteq> CHR ''_'' \<Longrightarrow> ch \<noteq> CHR ''+'' \<Longrightarrow>
      ch \<noteq> CHR ''-'' \<Longrightarrow> Config osenv = Inl (ValueError v)"
    using py_int_bad [of ch v]
    by (simp add: Config_def Config_with_def int_env_def getenv_def py_int_0)
  have unset: "osenv ''SLOW_MO'' = None \<Longrightarrow> osenv ''TIMEOUT'' = None \<Longrightarrow>
      (\<exists>c. Config osenv = Inr c \<and> slow_mo c = 0 \<and> timeout c = 30000) \<and>
      (\<exists>b. BROWSER_CONFIG osenv = Inr b \<and> bc_slow_mo b = 0)"
    by (simp add: Config_def Config_with_def BROWSER_CONFIG_def BROWSER_CONFIG_with_def
        int_env_def getenv_def py_int_0 py_int_30000)
  have any_int: "(int_of (getenv osenv ''SLOW_MO'' ''0'') = None \<longrightarrow>
      Config_with int_of osenv = Inl (ValueError (getenv osenv ''SLOW_MO'' ''0'')) \<and>
      BROWSER_CONFIG_with int_of osenv = Inl (ValueError (getenv osenv ''SLOW_MO'' ''0''))) \<and>
   (int_of (getenv osenv ''SLOW_MO'' ''0'') \<noteq> None \<and>
    int_of (getenv osenv ''TIMEOUT'' ''30000'') = None \<longrightarrow>
      Config_with int_of osenv = Inl (ValueError (getenv osenv ''TIMEOUT'' ''30000''))) \<and>
   (int_of (getenv osenv ''SLOW_MO'' ''0'') = Some sm \<and>
    int_of (getenv osenv ''TIMEOUT'' ''30000'') = Some t \<longrightarrow>
      (\<exists>c. Config_with int_of osenv = Inr c \<and> slow_mo c = sm \<and> timeout c = t)) \<and>
   (int_of (getenv osenv ''SLOW_MO'' ''0'') = Some sm \<longrightarrow>
      (\<exists>b. BROWSER_CONFIG_with int_of osenv = Inr b \<and> bc_slow_mo b = sm))"
    by (auto simp add: Config_with_def BROWSER_CONFIG_with_def int_env_def)
  show ?thesis using bad_slow bad_timeout unset any_int by blast
qed

theorem Config_malformed_int_witness:
  "Config_with py_int [''SLOW_MO'' \<mapsto> ''fast''] = Inl (ValueError ''fast'') \<and>
   BROWSER_CONFIG_with py_int [''SLOW_MO'' \<mapsto> ''fast''] = Inl (ValueError ''fast'') \<and>
   Config [''SLOW_MO'' \<mapsto> ''fast''] = Inl (ValueError ''fast'') \<and>
   Config_with py_int [''TIMEOUT'' \<mapsto> ''30s''] = Inl (ValueError ''30s'') \<and>
   Config [''TIMEOUT'' \<mapsto> ''30s''] = Inl (ValueError ''30s'') \<and>
   (\<exists>c. Config_with py_int [''SLOW_MO'' \<mapsto> ''250'', ''TIMEOUT'' \<mapsto> ''5000''] = Inr c \<and>
        slow_mo c = 250 \<and> timeout c = 5000) \<and>
   (\<exists>b. BROWSER_CONFIG_with py_int [''SLOW_MO'' \<mapsto> ''250'', ''TIMEOUT'' \<mapsto> ''5000''] = Inr b \<and>
        bc_slow_mo b = 250) \<and>
   (\<exists>c. Config Map.empty = Inr c \<and> slow_mo c = 0 \<and> timeout c = 30000)"
  using Config_malformed_int [of py_int "[''SLOW_MO'' \<mapsto> ''fast'']" 0 0 "''fast''" "CHR ''f''"]
    Config_malformed_int [of py_int "[''TIMEOUT'' \<mapsto> ''30s'']" 0 0 "''30s''" "CHR ''s''"]
    Config_malformed_int [of py_int "[''SLOW_MO'' \<mapsto> ''250'', ''TIMEOUT'' \<mapsto> ''5000'']"
      250 5000 "''250''" "CHR ''x''"]
    Config_malformed_int [of py_int Map.empty 0 30000 "''''" "CHR ''x''"]
  by (simp add: getenv_def py_int_eval)

section \<open>The error-message step\<close>

lemma starts_with_iff: "starts_with n h \<longleftrightarrow> (\<exists>s. h = n @ s)"
  by (induction n h rule: starts_with.induct) auto

lemma str_contains_iff: "str_contains n h \<longleftrightarrow> (\<exists>p s. h = p @ n @ s)"
proof (induction h)
  case Nil
  then show ?case by simp
next
  case (Cons c cs)
  show ?case
  proof
    assume "str_contains n (c # cs)"
    then consider "starts_with n (c # cs)" | "str_contains n cs" by auto
    then show "\<exists>p s. c # cs = p @ n @ s"
    proof cases
      case 1
      then obtain s where "c # cs = n @ s" using starts_with_iff by blast
      then have "c # cs = [] @ n @ s" by simp
      then show ?thesis by blast
    next
      case 2
      then obtain p s where "cs = p @ n @ s" using Cons.IH by blast
      then have "c # cs = (c # p) @ n @ s" by simp
      then show ?thesis by blast
    qed
  next
    assume "\<exists>p s. c # cs = p @ n @ s"
    then obtain p s where eq: "c # cs = p @ n @ s" by blast
    show "str_contains n (c # cs)"
    proof (cases p)
      case Nil
      then have "starts_with n (c # cs)" using eq starts_with_iff by auto
      then show ?thesis by simp
    next
      case (Cons d ds)
      then have "cs = ds @ n @ s" using eq by simp
      then have "str_contains n cs" using Cons.IH by blast
      then show ?thesis by simp
    qed
  qed
qed

lemma str_contains_refl: "str_contains s s"
  unfolding str_contains_iff by (rule exI [of _ "[]"]) simp

lemma error_not_found_expected: "str_contains e (error_not_found e a)"
  unfolding str_contains_iff error_not_found_def
  by (rule exI [of _ "''Expected error '' @ quote"]) simp

lemma error_not_found_actual: "str_contains (fmt a) (error_not_found e a)"
  unfolding str_contains_iff error_not_found_def
  by (rule exI [of _ "''Expected error '' @ quote @ e @ quote @ '' not found in '' @ quote"])
    simp

text \<open>
  C7. With a login page object on the context, the step
  \<^verbatim>\<open>I should see an error message "{error_message}"\<close> reads the text under the
  error-message locator (the empty string when there is none) and passes exactly when
  the expected string occurs in it as a contiguous run, so also when the two are equal.
  Otherwise it raises the assertion error whose message contains the expected and the
  actual string. The context is unchanged and the one call issued is \<open>text_content\<close>.
\<close>

theorem step_verify_error_message_substring:
  assumes "login_page ctx = Some lp"
    and "actual = (case dom_text w lp ERROR_MESSAGE of None \<Rightarrow> [] | Some s \<Rightarrow> s)"
  shows "step_verify_error_message ctx expected w =
           (if str_contains expected actual then None
            else Some (AssertionError (error_not_found expected (Some actual))),
            ctx, emit (Text_content lp ERROR_MESSAGE) w)
         \<and> (str_contains expected actual \<longleftrightarrow> (\<exists>pre suf. actual = pre @ expected @ suf))
         \<and> str_contains expected expected
         \<and> str_contains expected (error_not_found expected (Some actual))
         \<and> str_contains actual (error_not_found expected (Some actual))"
proof -
  have got: "get_error_message lp w = (Some actual, emit (Text_content lp ERROR_MESSAGE) w)"
    using assms(2)
    by (simp add: get_error_message_def get_text_def py_or_def truthy_def split: option.splits)
  have run: "step_verify_error_message ctx expected w =
           (if str_contains expected actual then None
            else Some (AssertionError (error_not_found expected (Some actual))),
            ctx, emit (Text_content lp ERROR_MESSAGE) w)"
    using assms(1) got by (simp add: step_verify_error_message_def py_in_def)
  have act: "str_contains actual (error_not_found expected (Some actual))"
    using error_not_found_actual [of "Some actual" expected] by (simp add: fmt_def)
  show ?thesis
    using run act error_not_found_expected str_contains_iff str_contains_refl by blast
qed

theorem step_verify_error_message_substring_witness:
  "fst (step_verify_error_message ((before_all default_config)\<lparr>login_page := Some 2\<rparr>)
      ''Invalid credentials'' (page_with_error ''Invalid credentials'')) = None \<and>
   fst (step_verify_error_message ((before_all default_config)\<lparr>login_page := Some 2\<rparr>)
      ''Invalid credentials'' (page_with_error ''Invalid credentials provided'')) = None \<and>
   fst (step_verify_error_message ((before_all default_config)\<lparr>login_page := Some 2\<rparr>)
      ''Invalid credentials'' (page_with_error ''Login failed'')) =
     Some (AssertionError
       (''Expected error 'Invalid credentials' not found in 'Login failed'' @ quote))"
  using step_verify_error_message_substring
      [of "(before_all default_config)\<lparr>login_page := Some 2\<rparr>" 2 "''Invalid credentials''"
          "page_with_error ''Invalid credentials''" "''Invalid credentials''"]
    step_verify_error_message_substring
      [of "(before_all default_config)\<lparr>login_page := Some 2\<rparr>" 2
          "''Invalid credentials provided''"
          "page_with_error ''Invalid credentials provided''" "''Invalid credentials''"]
    step_verify_error_message_substring
      [of "(before_all default_config)\<lparr>login_page := Some 2\<rparr>" 2 "''Login failed''"
          "page_with_error ''Login failed''" "''Invalid credentials''"]
  by (simp add: page_with_error_def initial_world_def error_not_found_def fmt_def quote_def
      ERROR_MESSAGE_def)

section \<open>Scenario teardown\<close>

lemma replace_space_no_space: "CHR '' '' \<notin> set (replace_space s)"
  by (auto simp: replace_space_def)

lemma replace_space_length: "length (replace_space s) = length s"
  by (simp add: replace_space_def)

lemma replace_space_nth:
  "i < length s \<Longrightarrow> replace_space s ! i = (if s ! i = CHR '' '' then CHR ''_'' else s ! i)"
  by (simp add: replace_space_def)

text \<open>
  C6. For a scenario that has a page, \<open>after_scenario\<close> raises nothing and issues, for
  a failed scenario, the screenshot to \<open>screenshots/\<close> followed by the scenario name
  with every space turned into an underscore and by \<open>.png\<close>, then the message about
  it, then the close of the page; for any other status it issues the close of the page
  alone. The name in the path has no space left, has the length of the scenario name
  and differs from it only where that has a space.
\<close>

theorem after_scenario_screenshot_then_close:
  assumes "page ctx = Some p"
  shows "after_scenario ctx sc w =
           (None, ctx,
            w\<lparr>calls := calls w @
               (if status sc = Failed
                then [Screenshot p (''screenshots/'' @ replace_space (name sc) @ ''.png''),
                      Print (''Screenshot saved: screenshots/'' @ replace_space (name sc)
                               @ ''.png'')]
                else [])
               @ [Page_close p]\<rparr>)
         \<and> CHR '' '' \<notin> set (replace_space (name sc))
         \<and> length (replace_space (name sc)) = length (name sc)
         \<and> (\<forall>i < length (name sc). replace_space (name sc) ! i =
               (if name sc ! i = CHR '' '' then CHR ''_'' else name sc ! i))"
  using assms replace_space_no_space replace_space_length replace_space_nth
  by (simp add: after_scenario_def close_page_def screenshot_path_def emit_def)

theorem after_scenario_screenshot_then_close_witness:
  "calls (snd (snd (after_scenario ((before_all default_config)\<lparr>page := Some 2\<rparr>)
      \<lparr>name = ''Login with valid credentials'', status = Failed\<rparr> initial_world))) =
     [Screenshot 2 ''screenshots/Login_with_valid_credentials.png'',
      Print ''Screenshot saved: screenshots/Login_with_valid_credentials.png'',
      Page_close 2] \<and>
   calls (snd (snd (after_scenario ((before_all default_config)\<lparr>page := Some 2\<rparr>)
      \<lparr>name = ''Login with valid credentials'', status = Passed\<rparr> initial_world))) =
     [Page_close 2]"
  using after_scenario_screenshot_then_close
      [of "(before_all default_config)\<lparr>page := Some 2\<rparr>" 2
          "\<lparr>name = ''Login with valid credentials'', status = Failed\<rparr>" initial_world]
    after_scenario_screenshot_then_close
      [of "(before_all default_config)\<lparr>page := Some 2\<rparr>" 2
          "\<lparr>name = ''Login with valid credentials'', status = Passed\<rparr>" initial_world]
  by (simp add: initial_world_def replace_space_def)

section \<open>The browser manager\<close>

lemma get_browser_cached: "browser bm = Some b \<Longrightarrow> get_browser bm w = (Inr b, bm, w)"
  by (simp add: get_browser_def)

lemma get_browser_launch:
  "browser bm = None \<Longrightarrow> browser_name (bm_config bm) \<in> set browser_types \<Longrightarrow>
   get_browser bm w =
     (Inr (Suc (next_id w)),
      bm\<lparr>playwright := Some (next_id w), browser := Some (Suc (next_id w))\<rparr>,
      w\<lparr>calls := calls w @
           [Playwright_start (next_id w),
            Launch (next_id w) (browser_name (bm_config bm)) (headless (bm_config bm))
              (slow_mo (bm_config bm)) (Suc (next_id w))],
        next_id := Suc (Suc (next_id w))\<rparr>)"
  by (simp add: get_browser_def alloc_def emit_def)

lemma get_browser_unsupported:
  "browser bm = None \<Longrightarrow> browser_name (bm_config bm) \<notin> set browser_types \<Longrightarrow>
   get_browser bm w =
     (Inl (AttributeError (browser_name (bm_config bm))),
      bm\<lparr>playwright := Some (next_id w)\<rparr>,
      w\<lparr>calls := calls w @ [Playwright_start (next_id w)], next_id := Suc (next_id w)\<rparr>)"
  by (simp add: get_browser_def alloc_def emit_def)

lemma get_browsers_cached:
  "browser bm = Some b \<Longrightarrow> get_browsers n bm w = (replicate n (Inr b), bm, w)"
  by (induction n) (simp_all add: get_browser_cached)

text \<open>With a browser name the driver does not know, every call raises and none launches.\<close>

lemma get_browsers_unsupported:
  "browser bm = None \<Longrightarrow> browser_name (bm_config bm) \<notin> set browser_types \<Longrightarrow>
   launches (calls (snd (snd (get_browsers n bm w)))) = launches (calls w) \<and>
   fst (get_browsers n bm w) = replicate n (Inl (AttributeError (browser_name (bm_config bm))))"
proof (induction n arbitrary: bm w)
  case 0
  then show ?case by simp
next
  case (Suc n)
  let ?bm = "bm\<lparr>playwright := Some (next_id w)\<rparr>"
  let ?w = "w\<lparr>calls := calls w @ [Playwright_start (next_id w)], next_id := Suc (next_id w)\<rparr>"
  have step: "get_browser bm w = (Inl (AttributeError (browser_name (bm_config bm))), ?bm, ?w)"
    using Suc.prems by (rule get_browser_unsupported)
  have ih: "launches (calls (snd (snd (get_browsers n ?bm ?w)))) = launches (calls ?w) \<and>
      fst (get_browsers n ?bm ?w) =
        replicate n (Inl (AttributeError (browser_name (bm_config ?bm))))"
    using Suc.prems by (intro Suc.IH) simp_all
  have same: "launches (calls ?w) = launches (calls w)" by (simp add: launches_def)
  show ?case using step ih same by (auto split: prod.splits)
qed

lemma get_browsers_launch_bound:
  "launches (calls (snd (snd (get_browsers n bm w)))) \<le> launches (calls w) + 1"
proof (cases "browser bm")
  case (Some b)
  then show ?thesis by (simp add: get_browsers_cached)
next
  case None
  show ?thesis
  proof (cases "browser_name (bm_config bm) \<in> set browser_types")
    case False
    then show ?thesis using None get_browsers_unsupported [of bm n w] by simp
  next
    case True
    show ?thesis
    proof (cases n)
      case 0
      then show ?thesis by simp
    next
      case (Suc m)
      show ?thesis using None True Suc
        by (simp add: get_browser_launch get_browsers_cached launches_def)
    qed
  qed
qed

lemma get_browsers_same_handle:
  assumes "Inr h \<in> set (fst (get_browsers n bm w))"
    and "Inr h' \<in> set (fst (get_browsers n bm w))"
  shows "h = h'"
proof (cases "browser bm")
  case (Some b)
  then show ?thesis using assms by (simp add: get_browsers_cached)
next
  case None
  show ?thesis
  proof (cases "browser_name (bm_config bm) \<in> set browser_types")
    case False
    then show ?thesis using None assms get_browsers_unsupported [of bm n w] by simp
  next
    case True
    show ?thesis
    proof (cases n)
      case 0
      then show ?thesis using assms by simp
    next
      case (Suc m)
      show ?thesis using None True Suc assms
        by (simp add: get_browser_launch get_browsers_cached) auto
    qed
  qed
qed

lemma chromium_supported: "browser_name default_config \<in> set browser_types"
  by (simp add: default_config_def browser_types_def)

text \<open>
  C4. On a new manager whose configured browser the driver knows, any number of calls of
  \<open>get_browser\<close>, at least one, all return the same handle, the one the first call
  created, and exactly one browser is launched. In any state of a manager and for any
  number of calls at most one browser is launched and all handles returned are equal. A
  new manager used later launches a browser of its own, with a handle different from the
  first manager's.
\<close>

theorem get_browser_single_launch:
  assumes "browser_name cfg \<in> set browser_types"
  shows "fst (get_browsers (Suc n) (BrowserManager cfg) w)
           = replicate (Suc n) (Inr (Suc (next_id w)))
       \<and> launches (calls (snd (snd (get_browsers (Suc n) (BrowserManager cfg) w))))
           = launches (calls w) + 1
       \<and> next_id (snd (snd (get_browsers (Suc n) (BrowserManager cfg) w)))
           = Suc (Suc (next_id w))
       \<and> launches (calls (snd (snd (get_browsers k bm w)))) \<le> launches (calls w) + 1
       \<and> (Inr h \<in> set (fst (get_browsers k bm w)) \<and>
          Inr h' \<in> set (fst (get_browsers k bm w)) \<longrightarrow> h = h')
       \<and> (browser_name cfg2 \<in> set browser_types \<and> Suc (Suc (next_id w)) \<le> next_id w2 \<longrightarrow>
            (\<exists>h2. fst (get_browser (BrowserManager cfg2) w2) = Inr h2 \<and>
                  h2 \<noteq> Suc (next_id w) \<and>
                  launches (calls (snd (snd (get_browser (BrowserManager cfg2) w2))))
                    = launches (calls w2) + 1))"
proof -
  have none: "browser (BrowserManager cfg) = None" "bm_config (BrowserManager cfg) = cfg"
    by (simp_all add: BrowserManager_def)
  have first: "fst (get_browsers (Suc n) (BrowserManager cfg) w)
      = replicate (Suc n) (Inr (Suc (next_id w)))"
    using assms none by (simp add: get_browser_launch get_browsers_cached)
  have count: "launches (calls (snd (snd (get_browsers (Suc n) (BrowserManager cfg) w))))
      = launches (calls w) + 1"
    using assms none by (simp add: get_browser_launch get_browsers_cached launches_def)
  have nid: "next_id (snd (snd (get_browsers (Suc n) (BrowserManager cfg) w)))
      = Suc (Suc (next_id w))"
    using assms none by (simp add: get_browser_launch get_browsers_cached)
  have fresh: "browser_name cfg2 \<in> set browser_types \<Longrightarrow>
          Suc (Suc (next_id w)) \<le> next_id w2 \<Longrightarrow>
            (\<exists>h2. fst (get_browser (BrowserManager cfg2) w2) = Inr h2 \<and>
                  h2 \<noteq> Suc (next_id w) \<and>
                  launches (calls (snd (snd (get_browser (BrowserManager cfg2) w2))))
                    = launches (calls w2) + 1)"
    by (simp add: get_browser_launch BrowserManager_def launches_def)
  show ?thesis
    using first count nid fresh get_browsers_launch_bound [of k bm w]
      get_browsers_same_handle [of h k bm w h']
    by blast
qed

theorem get_browser_single_launch_witness:
  "fst (get_browsers 3 (BrowserManager default_config) initial_world) = replicate 3 (Inr 1) \<and>
   launches (calls (snd (snd (get_browsers 3 (BrowserManager default_config) initial_world))))
     = 1 \<and>
   Inr 1 \<in> set (fst (get_browsers 3 (BrowserManager default_config) initial_world)) \<and>
   (\<exists>h2. fst (get_browser (BrowserManager default_config)
               (initial_world\<lparr>next_id := 2\<rparr>)) = Inr h2 \<and> h2 \<noteq> 1)"
  using get_browser_single_launch [OF chromium_supported, of 2 initial_world 3
      "BrowserManager default_config" 1 1 default_config "initial_world\<lparr>next_id := 2\<rparr>"]
    chromium_supported
  by (auto simp add: initial_world_def launches_def)

text \<open>
  C2 as stated fails once a browser has been acquired: \<open>close_all\<close> clears neither
  field, so a second call closes the same browser handle and stops the same driver again.
\<close>

theorem close_all_twice_counterexample:
  "fst (get_browser (BrowserManager default_config) initial_world) = Inr 1 \<and>
   calls (snd (close_all
            (fst (snd (get_browser (BrowserManager default_config) initial_world)))
            (snd (close_all
                    (fst (snd (get_browser (BrowserManager default_config) initial_world)))
                    (snd (snd (get_browser (BrowserManager default_config) initial_world)))))))
     = [Playwright_start 0, Launch 0 ''chromium'' False 0 1,
        Browser_close 1, Playwright_stop 0, Browser_close 1, Playwright_stop 0]"
  by (simp add: get_browser_def BrowserManager_def default_config_def browser_types_def
      initial_world_def alloc_def emit_def close_all_def)

text \<open>
  C2, amended. \<open>close_all\<close> raises nothing of its own and leaves the manager as it
  was. One call issues the close of the browser handle, if the manager holds one, and
  then the stop of the driver, if it holds one, once each. On a manager that never
  acquired a browser it does nothing at all. Called twice in succession it issues the
  same release calls a second time.
\<close>

theorem close_all_releases:
  "fst (close_all bm w) = bm \<and>
   calls (snd (close_all bm w)) = calls w @ releases bm \<and>
   (browser bm = None \<and> playwright bm = None \<longrightarrow> close_all bm w = (bm, w)) \<and>
   close_all (BrowserManager cfg) w = (BrowserManager cfg, w) \<and>
   calls (snd (close_all (fst (close_all bm w)) (snd (close_all bm w)))) =
     calls w @ releases bm @ releases bm \<and>
   (browser bm = Some b \<and> playwright bm = Some d \<longrightarrow>
      releases bm = [Browser_close b, Playwright_stop d])"
  by (simp add: close_all_def releases_def emit_def BrowserManager_def Let_def
      split: option.splits)

theorem close_all_releases_witness:
  "close_all \<lparr>playwright = None, browser = None, bm_config = default_config\<rparr> initial_world =
     (\<lparr>playwright = None, browser = None, bm_config = default_config\<rparr>, initial_world) \<and>
   calls (snd (close_all \<lparr>playwright = Some 0, browser = Some 1, bm_config = default_config\<rparr>
      initial_world)) = [Browser_close 1, Playwright_stop 0]"
  using close_all_releases [of "\<lparr>playwright = None, browser = None, bm_config = default_config\<rparr>"
      initial_world default_config 0 0]
    close_all_releases [of "\<lparr>playwright = Some 0, browser = Some 1, bm_config = default_config\<rparr>"
      initial_world default_config 1 0]
  by (simp add: initial_world_def)

section \<open>Scenario setup\<close>

lemma fresh_scenario_eq:
  "fresh_scenario =
     (None,
      \<lparr>ctx_config = default_config,
        ctx_browser_manager =
          \<lparr>playwright = Some 0, browser = Some 1, bm_config = default_config\<rparr>,
        ctx_browser = Some 1, page = Some 2,
        scenario_name = Some ''Login with valid credentials'', login_page = None\<rparr>,
      \<lparr>calls = [Playwright_start 0, Launch 0 ''chromium'' False 0 1, New_page 1 2,
                Set_default_timeout 2 30000],
        next_id = 3, dom_text = (\<lambda>p. Map.empty)\<rparr>)"
  by (simp add: fresh_scenario_def before_scenario_def before_all_def BrowserManager_def
      get_browser_def browser_types_def default_config_def initial_world_def alloc_def emit_def)

text \<open>\<open>before_scenario\<close> by the state of the manager it finds.\<close>

lemma before_scenario_cases:
  "before_scenario ctx sc w =
     (case browser (ctx_browser_manager ctx) of
        Some b \<Rightarrow>
          (None,
           ctx\<lparr>ctx_browser := Some b, page := Some (next_id w),
               scenario_name := Some (name sc)\<rparr>,
           w\<lparr>calls := calls w @ [New_page b (next_id w), Set_default_timeout (next_id w) 30000],
             next_id := Suc (next_id w)\<rparr>)
      | None \<Rightarrow>
          if browser_name (bm_config (ctx_browser_manager ctx)) \<in> set browser_types
          then (None,
                ctx\<lparr>ctx_browser_manager :=
                      (ctx_browser_manager ctx)\<lparr>playwright := Some (next_id w),
                                                browser := Some (Suc (next_id w))\<rparr>,
                    ctx_browser := Some (Suc (next_id w)),
                    page := Some (Suc (Suc (next_id w))),
                    scenario_name := Some (name sc)\<rparr>,
                w\<lparr>calls := calls w @
                     [Playwright_start (next_id w),
                      Launch (next_id w) (browser_name (bm_config (ctx_browser_manager ctx)))
                        (headless (bm_config (ctx_browser_manager ctx)))
                        (slow_mo (bm_config (ctx_browser_manager ctx))) (Suc (next_id w)),
                      New_page (Suc (next_id w)) (Suc (Suc (next_id w))),
                      Set_default_timeout (Suc (Suc (next_id w))) 30000],
                  next_id := Suc (Suc (Suc (next_id w)))\<rparr>)
          else (Some (AttributeError (browser_name (bm_config (ctx_browser_manager ctx)))),
                ctx\<lparr>ctx_browser_manager :=
                      (ctx_browser_manager ctx)\<lparr>playwright := Some (next_id w)\<rparr>\<rparr>,
                w\<lparr>calls := calls w @ [Playwright_start (next_id w)],
                  next_id := Suc (next_id w)\<rparr>))"
  by (simp add: before_scenario_def get_browser_def alloc_def emit_def split: option.splits)

text \<open>
  C3 as stated fails for \<open>TIMEOUT=5000\<close>: the configuration holds 5000 and the page
  opened at scenario setup is given 30000.
\<close>

theorem before_scenario_timeout_counterexample:
  "Config [''TIMEOUT'' \<mapsto> ''5000''] = Inr (default_config\<lparr>timeout := 5000\<rparr>) \<and>
   fst (before_scenario (before_all (default_config\<lparr>timeout := 5000\<rparr>))
          \<lparr>name = ''Login'', status = Untested\<rparr> initial_world) = None \<and>
   page (fst (snd (before_scenario (before_all (default_config\<lparr>timeout := 5000\<rparr>))
          \<lparr>name = ''Login'', status = Untested\<rparr> initial_world))) = Some 2 \<and>
   calls (snd (snd (before_scenario (before_all (default_config\<lparr>timeout := 5000\<rparr>))
          \<lparr>name = ''Login'', status = Untested\<rparr> initial_world))) =
     [Playwright_start 0, Launch 0 ''chromium'' False 0 1, New_page 1 2,
      Set_default_timeout 2 30000]"
  by (simp add: Config_def Config_with_def int_env_def getenv_def py_int_eval lower_false
      default_config_def before_scenario_def before_all_def BrowserManager_def get_browser_def
      browser_types_def
      initial_world_def alloc_def emit_def)

text \<open>
  C3, amended. Whenever \<open>before_scenario\<close> succeeds, the page it opened has the
  default timeout 30000 ms, a constant of the hook, and the configuration is untouched.
  That is the configured timeout exactly when the configured timeout is 30000, as it is
  when \<open>TIMEOUT\<close> is unset.
\<close>

theorem before_scenario_timeout:
  assumes "fst (before_scenario ctx sc w) = None"
  shows "\<exists>p. page (fst (snd (before_scenario ctx sc w))) = Some p
            \<and> applied_timeout (issued w (snd (snd (before_scenario ctx sc w)))) p = Some 30000
            \<and> ctx_config (fst (snd (before_scenario ctx sc w))) = ctx_config ctx
            \<and> (applied_timeout (issued w (snd (snd (before_scenario ctx sc w)))) p
                 = Some (timeout (ctx_config ctx)) \<longleftrightarrow> timeout (ctx_config ctx) = 30000)
            \<and> (Config osenv = Inr (ctx_config ctx) \<and> osenv ''TIMEOUT'' = None \<longrightarrow>
                 applied_timeout (issued w (snd (snd (before_scenario ctx sc w)))) p
                   = Some (timeout (ctx_config ctx)))"
proof -
  have unset: "Config osenv = Inr (ctx_config ctx) \<Longrightarrow> osenv ''TIMEOUT'' = None \<Longrightarrow>
      timeout (ctx_config ctx) = 30000"
    by (rule Config_timeout_unset)
  show ?thesis
    using assms unset
    by (auto simp add: before_scenario_cases issued_def split: option.splits if_splits)
qed

theorem before_scenario_timeout_witness:
  "fst (before_scenario (before_all default_config)
          \<lparr>name = ''Login with valid credentials'', status = Untested\<rparr> initial_world) = None \<and>
   Config Map.empty = Inr (ctx_config (before_all default_config)) \<and>
   (\<exists>p. page (fst (snd (before_scenario (before_all default_config)
          \<lparr>name = ''Login with valid credentials'', status = Untested\<rparr> initial_world))) = Some p
       \<and> applied_timeout (issued initial_world (snd (snd (before_scenario
            (before_all default_config)
            \<lparr>name = ''Login with valid credentials'', status = Untested\<rparr> initial_world)))) p
           = Some (timeout (ctx_config (before_all default_config))))"
proof -
  have ok: "fst (before_scenario (before_all default_config)
          \<lparr>name = ''Login with valid credentials'', status = Untested\<rparr> initial_world) = None"
    using fresh_scenario_eq by (simp add: fresh_scenario_def)
  have cfg: "Config Map.empty = Inr (ctx_config (before_all default_config))"
    using Config_empty by (simp add: before_all_def)
  show ?thesis
    using ok cfg before_scenario_timeout [OF ok, of Map.empty] by auto
qed

section \<open>The login steps\<close>

lemma lower_login: "lower ''login'' = ''login''"
  by (simp add: lower_def lower_char_def is_upper_def)

lemma step_navigate_to_page_login:
  "page ctx = Some p \<Longrightarrow>
   step_navigate_to_page ctx ''login'' w =
     (None, ctx,
      w\<lparr>calls := calls w @ [Goto p (base_url (ctx_config ctx) @ ''/login''),
                             Wait_for_load_state p ''networkidle'']\<rparr>)"
  by (simp add: step_navigate_to_page_def lower_login url_map_def navigate_to_def
      wait_for_load_state_def emit_def)

lemma login_calls:
  "login lp u pw w =
     w\<lparr>calls := calls w @ [Fill lp USERNAME_INPUT u, Fill lp PASSWORD_INPUT pw,
                            Click lp LOGIN_BUTTON]\<rparr>"
  by (simp add: login_def fill_def click_def emit_def)

text \<open>
  C1 as stated fails. In a scenario fresh from its setup hook the step
  \<^verbatim>\<open>I am on the "login" page\<close> puts no login page object on the context, so the
  step that enters the credentials raises \<open>AttributeError\<close> after the navigation and
  the wait, and no interaction takes place. With a login page object on the context the
  three steps perform four interactions: fill, fill, click and a second click.
\<close>

theorem login_scenario_counterexample:
  "fst fresh_scenario = None \<and>
   page (fst (snd fresh_scenario)) = Some 2 \<and>
   fst (run_steps (login_scenario ''alice'' ''secret'')
          (fst (snd fresh_scenario)) (snd (snd fresh_scenario))) =
     Some (AttributeError ''login_page'') \<and>
   issued (snd (snd fresh_scenario))
     (snd (snd (run_steps (login_scenario ''alice'' ''secret'')
                  (fst (snd fresh_scenario)) (snd (snd fresh_scenario))))) =
     [Goto 2 ''https://example.com/login'', Wait_for_load_state 2 ''networkidle''] \<and>
   issued (snd (snd fresh_scenario))
     (snd (snd (run_steps (login_scenario ''alice'' ''secret'')
                  ((fst (snd fresh_scenario))\<lparr>login_page := Some 2\<rparr>)
                  (snd (snd fresh_scenario))))) =
     [Goto 2 ''https://example.com/login'', Wait_for_load_state 2 ''networkidle'',
      Fill 2 ''#username'' ''alice'', Fill 2 ''#password'' ''secret'',
      Click 2 ''#login-button'', Click 2 ''#login-button'']"
  by (simp add: fresh_scenario_eq login_scenario_def step_navigate_to_page_login
      step_enter_credentials_def step_click_login_def login_calls click_def emit_def issued_def
      default_config_def USERNAME_INPUT_def PASSWORD_INPUT_def LOGIN_BUTTON_def)

text \<open>
  C1, amended. In a scenario with a page, \<^verbatim>\<open>I am on the "login" page\<close> goes to
  the base URL followed by \<open>/login\<close> and waits for the load state \<open>networkidle\<close>;
  it leaves the context as it is. The step that enters the credentials needs a login
  page object on the context: without one the three steps end in \<open>AttributeError\<close>
  after the navigation and the wait; with one, that step performs exactly the three
  interactions fill of the username, fill of the password and click of the login button,
  in this order, and \<^verbatim>\<open>I click the login button\<close> then clicks the login button once
  more. After \<^verbatim>\<open>I am on the login page\<close>, which does put the login page object on
  the context, entering the credentials performs exactly fill, fill, click.
\<close>

theorem login_scenario_calls:
  assumes "page ctx = Some p"
  shows "run_steps [I_am_on_the_page ''login''] ctx w =
           (None, ctx,
            w\<lparr>calls := calls w @ [Goto p (base_url (ctx_config ctx) @ ''/login''),
                                   Wait_for_load_state p ''networkidle'']\<rparr>)
       \<and> (login_page ctx = None \<longrightarrow>
            run_steps (login_scenario u pw) ctx w =
              (Some (AttributeError ''login_page''), ctx,
               w\<lparr>calls := calls w @ [Goto p (base_url (ctx_config ctx) @ ''/login''),
                                      Wait_for_load_state p ''networkidle'']\<rparr>))
       \<and> (login_page ctx = Some lp \<longrightarrow>
            run_steps (login_scenario u pw) ctx w =
              (None, ctx,
               w\<lparr>calls := calls w @ [Goto p (base_url (ctx_config ctx) @ ''/login''),
                                      Wait_for_load_state p ''networkidle'',
                                      Fill lp USERNAME_INPUT u, Fill lp PASSWORD_INPUT pw,
                                      Click lp LOGIN_BUTTON, Click lp LOGIN_BUTTON]\<rparr>))
       \<and> (login_page ctx = Some lp \<longrightarrow>
            step_enter_credentials ctx u pw w =
              (None, ctx,
               w\<lparr>calls := calls w @ [Fill lp USERNAME_INPUT u, Fill lp PASSWORD_INPUT pw,
                                      Click lp LOGIN_BUTTON]\<rparr>))
       \<and> run_steps [I_am_on_the_login_page, I_enter_username_and_password u pw] ctx w =
           (None, ctx\<lparr>login_page := Some p\<rparr>,
            w\<lparr>calls := calls w @ [Goto p (base_url (ctx_config ctx) @ ''/login''),
                                   Fill p USERNAME_INPUT u, Fill p PASSWORD_INPUT pw,
                                   Click p LOGIN_BUTTON]\<rparr>)"
  using assms
  by (simp add: login_scenario_def step_navigate_to_page_login step_enter_credentials_def
      step_click_login_def step_navigate_to_login_def login_calls click_def navigate_to_def
      emit_def)

theorem login_scenario_calls_witness:
  "page (fst (snd fresh_scenario)) = Some 2 \<and>
   login_page (fst (snd fresh_scenario)) = None \<and>
   fst (run_steps (login_scenario ''alice'' ''secret'')
          (fst (snd fresh_scenario)) (snd (snd fresh_scenario))) =
     Some (AttributeError ''login_page'') \<and>
   issued (snd (snd fresh_scenario))
     (snd (snd (run_steps [I_am_on_the_login_page,
                           I_enter_username_and_password ''alice'' ''secret'']
                  (fst (snd fresh_scenario)) (snd (snd fresh_scenario))))) =
     [Goto 2 ''https://example.com/login'',
      Fill 2 ''#username'' ''alice'', Fill 2 ''#password'' ''secret'',
      Click 2 ''#login-button''] \<and>
   issued (snd (snd fresh_scenario))
     (snd (snd (step_enter_credentials ((fst (snd fresh_scenario))\<lparr>login_page := Some 2\<rparr>)
                  ''alice'' ''secret'' (snd (snd fresh_scenario))))) =
     [Fill 2 ''#username'' ''alice'', Fill 2 ''#password'' ''secret'',
      Click 2 ''#login-button'']"
  using login_scenario_calls [of "fst (snd fresh_scenario)" 2 "snd (snd fresh_scenario)"
      "''alice''" "''secret''" 2]
    login_scenario_calls [of "(fst (snd fresh_scenario))\<lparr>login_page := Some 2\<rparr>" 2
      "snd (snd fresh_scenario)" "''alice''" "''secret''" 2]
  by (simp add: fresh_scenario_eq issued_def default_config_def
      USERNAME_INPUT_def PASSWORD_INPUT_def LOGIN_BUTTON_def)

end
